theory Spec2Isabelle
  imports Complex_Main
begin

section \<open>Exceptions and array values\<close>

text \<open>
  Python exceptions are values. \<open>KeyboardInterrupt\<close> and \<open>SystemExit\<close> derive from
  \<open>BaseException\<close> only, so a handler \<open>except Exception\<close> does not catch them;
  every other constructor is a subclass of \<open>Exception\<close>.
\<close>

datatype error =
    ImportError
  | ValueError
  | RuntimeError
  | OSError
  | SerialException
  | KeyboardInterrupt
  | SystemExit int

fun is_Exception :: "error \<Rightarrow> bool" where
  "is_Exception KeyboardInterrupt = False"
| "is_Exception (SystemExit _) = False"
| "is_Exception _ = True"

text \<open>
  Array elements. The arrays that librosa returns hold finite numbers (type \<open>real\<close>;
  rounding is not modelled). NumPy's division does not raise on a zero divisor: it
  yields \<open>nan\<close> or an infinity, so the results of arithmetic are of type \<open>npfloat\<close>.
\<close>

datatype npfloat = Fin real | PosInf | NegInf | NaN

fun np_sub :: "npfloat \<Rightarrow> npfloat \<Rightarrow> npfloat" where
  "np_sub (Fin a) (Fin b) = Fin (a - b)"
| "np_sub NaN _ = NaN"
| "np_sub _ NaN = NaN"
| "np_sub PosInf PosInf = NaN"
| "np_sub NegInf NegInf = NaN"
| "np_sub PosInf _ = PosInf"
| "np_sub NegInf _ = NegInf"
| "np_sub (Fin _) PosInf = NegInf"
| "np_sub (Fin _) NegInf = PosInf"

fun np_div :: "npfloat \<Rightarrow> npfloat \<Rightarrow> npfloat" where
  "np_div (Fin a) (Fin b) =
     (if b = 0 then (if a = 0 then NaN else if 0 < a then PosInf else NegInf)
      else Fin (a / b))"
| "np_div NaN _ = NaN"
| "np_div _ NaN = NaN"
| "np_div (Fin _) PosInf = Fin 0"
| "np_div (Fin _) NegInf = Fin 0"
| "np_div PosInf (Fin b) = (if 0 \<le> b then PosInf else NegInf)"
| "np_div NegInf (Fin b) = (if 0 \<le> b then NegInf else PosInf)"
| "np_div PosInf PosInf = NaN"
| "np_div PosInf NegInf = NaN"
| "np_div NegInf PosInf = NaN"
| "np_div NegInf NegInf = NaN"

text \<open>The comparison \<open>x > c\<close> against a finite constant; false on \<open>nan\<close>.\<close>

fun np_gt :: "npfloat \<Rightarrow> real \<Rightarrow> bool" where
  "np_gt (Fin a) c = (c < a)"
| "np_gt PosInf c = True"
| "np_gt NegInf c = False"
| "np_gt NaN c = False"

fun is_finite :: "npfloat \<Rightarrow> bool" where
  "is_finite (Fin _) = True"
| "is_finite _ = False"

text \<open>
  Scalars. A score is an \<open>np.float32\<close> and a threshold a Python float (binary64); both
  are modelled by the real number they denote. \<open>fl_round p\<close> rounds a real to the nearest
  number with \<open>p\<close> significant bits, ties to even (the exponent range is not modelled:
  the difference \<open>1 - threshold\<close> of two binary64 numbers neither overflows nor is
  subnormal, and rounding it to float32 can only overflow to a value above every finite
  float32 score, which leaves the comparison as it is). A score that is \<open>nan\<close> is
  outside the model.
\<close>

definition round_half_even :: "real \<Rightarrow> int" where
  "round_half_even x =
     (let f = \<lfloor>x\<rfloor> in
      if x - of_int f < 1 / 2 then f
      else if 1 / 2 < x - of_int f then f + 1
      else if even f then f else f + 1)"

definition fl_round :: "nat \<Rightarrow> real \<Rightarrow> real" where
  "fl_round p x =
     (if x = 0 then 0
      else (let e = \<lfloor>log 2 \<bar>x\<bar>\<rfloor>; u = 2 powi (e - int p + 1)
            in of_int (round_half_even (x / u)) * u))"

text \<open>Python's \<open>a - b\<close> on floats: the difference rounded to binary64.\<close>

definition py_float_sub :: "real \<Rightarrow> real \<Rightarrow> real" where
  "py_float_sub a b = fl_round 53 (a - b)"

text \<open>
  \<open>x < y\<close> for an \<open>np.float32\<close> \<open>x\<close> and a Python float \<open>y\<close>. Under the promotion rules
  of NumPy 2 (NEP 50) the Python float is converted to float32 and the two are compared
  as float32; under the rules of NumPy 1 both are compared as float64, which holds
  every float32 exactly.
\<close>

definition np_float32_less :: "bool \<Rightarrow> real \<Rightarrow> real \<Rightarrow> bool" where
  "np_float32_less nep50 x y = (if nep50 then x < fl_round 24 y else x < y)"

text \<open>
  A two-dimensional array is the list of its rows. \<open>shape1\<close> is \<open>a.shape[1]\<close>, the
  number of columns; \<open>is_2d\<close> says that all rows have that length, which every NumPy
  array satisfies.
\<close>

definition shape1 :: "'a list list \<Rightarrow> nat" where
  "shape1 a = (case a of [] \<Rightarrow> 0 | r # _ \<Rightarrow> length r)"

definition is_2d :: "'a list list \<Rightarrow> bool" where
  "is_2d a = list_all (\<lambda>r. length r = shape1 a) a"

text \<open>
  \<open>np.mean(a)\<close> and \<open>np.std(a)\<close> over all elements; \<open>nan\<close> on an empty array. They are
  computed exactly: where NumPy's sums round, a constant tensor can get a tiny positive
  standard deviation from NumPy and 0 here.
\<close>

definition np_mean :: "real list list \<Rightarrow> npfloat" where
  "np_mean a =
     (let xs = concat a in
      if xs = [] then NaN else Fin (sum_list xs / real (length xs)))"

definition np_std :: "real list list \<Rightarrow> npfloat" where
  "np_std a =
     (let xs = concat a in
      if xs = [] then NaN
      else (let mu = sum_list xs / real (length xs) in
            Fin (sqrt (sum_list (map (\<lambda>x. (x - mu)\<^sup>2) xs) / real (length xs)))))"

text \<open>\<open>np.concatenate((a, b), axis=0)\<close>: the column counts must agree.\<close>

definition np_concatenate0 :: "'a list list \<Rightarrow> 'a list list \<Rightarrow> error + 'a list list" where
  "np_concatenate0 a b = (if shape1 a = shape1 b then Inr (a @ b) else Inl ValueError)"

text \<open>
  \<open>np.pad(a, ((0, 0), (0, k)), mode='constant')\<close> appends \<open>k\<close> zeros to every row;
  \<open>a[:, :t]\<close> keeps the first \<open>t\<close> columns; \<open>np.pad(x, (0, k), mode='constant')\<close>
  appends \<open>k\<close> zeros to a one-dimensional array.
\<close>

definition np_pad_cols :: "nat \<Rightarrow> npfloat list list \<Rightarrow> npfloat list list" where
  "np_pad_cols k a = map (\<lambda>r. r @ replicate k (Fin 0)) a"

definition slice_cols :: "nat \<Rightarrow> 'a list list \<Rightarrow> 'a list list" where
  "slice_cols t a = map (take t) a"

definition np_pad_right :: "nat \<Rightarrow> real list \<Rightarrow> real list" where
  "np_pad_right k x = x @ replicate k 0"

section \<open>Configuration and the librosa interface\<close>

text \<open>
  The constants of \<open>config.py\<close> are parameters of the model, and so are the librosa
  functions the code calls: each returns an array or raises. \<open>NEP50\<close> says which NumPy
  the program runs under: whether Python floats are promoted by the rules of NumPy 2.
\<close>

record config =
  SR :: nat
  N_MFCC :: nat
  N_MELS :: nat
  TIME_STEPS :: nat
  NEP50 :: bool

record librosa =
  librosa_load :: "string \<Rightarrow> nat \<Rightarrow> error + (real list \<times> nat)"
  feature_mfcc :: "real list \<Rightarrow> nat \<Rightarrow> nat \<Rightarrow> error + real list list"
  feature_melspectrogram :: "real list \<Rightarrow> nat \<Rightarrow> nat option \<Rightarrow> error + real list list"

section \<open>utils.py\<close>

text \<open>
  \<open>extract_mfcc(file_path, sr, n_mfcc, y)\<close> and \<open>extract_mel_spectrogram(file_path, sr, y)\<close>.
  The result is optional because the caller tests it against \<open>None\<close>; these functions
  themselves return an array whenever they return.
\<close>

definition extract_mfcc ::
  "librosa \<Rightarrow> string option \<Rightarrow> nat \<Rightarrow> nat \<Rightarrow> real list option \<Rightarrow> error + real list list option" where
  "extract_mfcc L file_path sr n_mfcc y =
     (case y of
        Some y' \<Rightarrow> map_sum id Some (feature_mfcc L y' sr n_mfcc)
      | None \<Rightarrow>
         (case file_path of
            Some p \<Rightarrow>
              (case librosa_load L p sr of
                 Inl e \<Rightarrow> Inl e
               | Inr (y', sr') \<Rightarrow> map_sum id Some (feature_mfcc L y' sr' n_mfcc))
          | None \<Rightarrow> Inl ValueError))"

definition extract_mel_spectrogram ::
  "librosa \<Rightarrow> string option \<Rightarrow> nat \<Rightarrow> real list option \<Rightarrow> error + real list list option" where
  "extract_mel_spectrogram L file_path sr y =
     (case y of
        Some y' \<Rightarrow> map_sum id Some (feature_melspectrogram L y' sr None)
      | None \<Rightarrow>
         (case file_path of
            Some p \<Rightarrow>
              (case librosa_load L p sr of
                 Inl e \<Rightarrow> Inl e
               | Inr (y', sr') \<Rightarrow> map_sum id Some (feature_melspectrogram L y' sr' None))
          | None \<Rightarrow> Inl ValueError))"

text \<open>\<open>normalize_features\<close>: \<open>(features - np.mean(features)) / np.std(features)\<close>.\<close>

definition normalize_features :: "real list list \<Rightarrow> npfloat list list" where
  "normalize_features features =
     map (map (\<lambda>x. np_div (np_sub (Fin x) (np_mean features)) (np_std features))) features"

section \<open>preprocess.py\<close>

definition preprocess_file ::
  "config \<Rightarrow> librosa \<Rightarrow> string \<Rightarrow> int \<Rightarrow> error + (npfloat list list \<times> int) option" where
  "preprocess_file cfg L file label =
     (case extract_mfcc L (Some file) (SR cfg) (N_MFCC cfg) None of
        Inl e \<Rightarrow> Inl e
      | Inr mfcc_features \<Rightarrow>
     (case extract_mel_spectrogram L (Some file) (SR cfg) None of
        Inl e \<Rightarrow> Inl e
      | Inr mel_features \<Rightarrow>
     (case (mfcc_features, mel_features) of
        (Some mfcc, Some mel) \<Rightarrow>
          (case np_concatenate0 mfcc mel of
             Inl e \<Rightarrow> Inl e
           | Inr combined_features \<Rightarrow>
               (let normalized_features = normalize_features combined_features in
                Inr (Some
                  (if shape1 normalized_features \<noteq> TIME_STEPS cfg then
                     (if shape1 normalized_features < TIME_STEPS cfg then
                        np_pad_cols (TIME_STEPS cfg - shape1 normalized_features) normalized_features
                      else slice_cols (TIME_STEPS cfg) normalized_features)
                   else normalized_features, label))))
      | _ \<Rightarrow> Inr None)))"

section \<open>realtime/realtime_detection.py: feature extraction\<close>

definition extract_features ::
  "config \<Rightarrow> librosa \<Rightarrow> real list \<Rightarrow> error + npfloat list list list" where
  "extract_features cfg L audio_data =
     (case feature_mfcc L audio_data (SR cfg) (N_MFCC cfg) of
        Inl e \<Rightarrow> Inl e
      | Inr mfcc_features \<Rightarrow>
     (case feature_melspectrogram L audio_data (SR cfg) (Some (N_MELS cfg)) of
        Inl e \<Rightarrow> Inl e
      | Inr mel_features \<Rightarrow>
     (case np_concatenate0 mfcc_features mel_features of
        Inl e \<Rightarrow> Inl e
      | Inr combined_features \<Rightarrow>
          (let mean = np_mean combined_features;
               std = np_std combined_features;
               normalized_features =
                 (if np_gt std 0 then
                    map (map (\<lambda>x. np_div (np_sub (Fin x) mean) std)) combined_features
                  else map (map Fin) combined_features)
           in Inr [if shape1 normalized_features \<noteq> TIME_STEPS cfg then
                     (if shape1 normalized_features < TIME_STEPS cfg then
                        np_pad_cols (TIME_STEPS cfg - shape1 normalized_features) normalized_features
                      else slice_cols (TIME_STEPS cfg) normalized_features)
                   else normalized_features]))))"

section \<open>Effects\<close>

text \<open>
  What the program does to the outside world is recorded, in order, in a log of actions.
  The texts the program prints are abstracted to messages.
\<close>

datatype message =
    Msg_already_running
  | Msg_input_devices
  | Msg_opening_stream
  | Msg_cannot_open_stream error
  | Msg_check_microphone
  | Msg_stream_started
  | Msg_monitoring_banner
  | Msg_status real bool
  | Msg_trigger real
  | Msg_audio_error error
  | Msg_interrupted
  | Msg_runtime_error error
  | Msg_stopped
  | Msg_vibration_alert
  | Msg_model_missing
  | Msg_train_model_first
  | Msg_pi_initialized
  | Msg_no_gpio_library
  | Msg_arduino_initialized
  | Msg_no_pyserial
  | Msg_no_arduino error

datatype action =
    Print message
  | PyAudio_new
  | List_devices
  | Stream_open
  | Stream_start
  | Stream_read
  | Stream_stop
  | Stream_close
  | PyAudio_terminate
  | Sleep
  | Load_model
  | Gpio_call
  | Serial_call

text \<open>
  How a call ends: it returns, an exception leaves it, or (for the detection loop, which
  runs until it is stopped) the recorded reads of the microphone are used up while it is
  still running.
\<close>

datatype outcome = Returned | Raised error | Pending

section \<open>realtime/realtime_detection.py: the detector\<close>

text \<open>
  The fields of \<open>RealtimeSnoreDetector\<close>. The classifier \<open>model\<close> maps a batch of one
  feature tensor to a score or raises. The callback acts on the log and may raise.
  \<open>audio_buffer\<close> is a \<open>deque\<close> with \<open>maxlen = buffer_maxlen\<close>. The constant fields
  \<open>format\<close> and \<open>channels\<close> are left out.
\<close>

record detector =
  model :: "npfloat list list list \<Rightarrow> error + real"
  chunk_duration :: real
  overlap :: real
  vibration_callback :: "(action list \<Rightarrow> error option \<times> action list) option"
  threshold :: real
  chunk_size :: int
  hop_size :: int
  audio_buffer :: "real list"
  buffer_maxlen :: nat
  is_running :: bool
  audio_stream :: "unit option"
  pyaudio_instance :: "unit option"
  snore_count :: int
  snore_threshold_count :: int

text \<open>Python's \<open>int(x)\<close> on a float truncates towards zero.\<close>

definition py_int :: "real \<Rightarrow> int" where
  "py_int x = (if 0 \<le> x then \<lfloor>x\<rfloor> else \<lceil>x\<rceil>)"

text \<open>\<open>__init__\<close>; \<open>load_model\<close> is the Keras loader, which may raise.\<close>

definition RealtimeSnoreDetector_init ::
  "config \<Rightarrow> (string \<Rightarrow> error + (npfloat list list list \<Rightarrow> error + real)) \<Rightarrow> string \<Rightarrow> real \<Rightarrow> real \<Rightarrow>
   (action list \<Rightarrow> error option \<times> action list) option \<Rightarrow> real \<Rightarrow> error + detector" where
  "RealtimeSnoreDetector_init cfg load_model model_path chunk_dur ovl callback thr =
     (case load_model model_path of
        Inl e \<Rightarrow> Inl e
      | Inr m \<Rightarrow> Inr \<lparr>
          model = m,
          chunk_duration = chunk_dur,
          overlap = ovl,
          vibration_callback = callback,
          threshold = thr,
          chunk_size = py_int (real (SR cfg) * chunk_dur),
          hop_size = py_int (real (SR cfg) * chunk_dur * (1 - ovl)),
          audio_buffer = [],
          buffer_maxlen = nat (py_int (real (SR cfg) * 3)),
          is_running = False,
          audio_stream = None,
          pyaudio_instance = None,
          snore_count = 0,
          snore_threshold_count = 3 \<rparr>)"

text \<open>\<open>predict\<close>: \<open>self.model.predict(self.extract_features(audio_data))[0][0]\<close>.\<close>

definition predict :: "config \<Rightarrow> librosa \<Rightarrow> detector \<Rightarrow> real list \<Rightarrow> error + real" where
  "predict cfg L d audio_data =
     (case extract_features cfg L audio_data of
        Inl e \<Rightarrow> Inl e
      | Inr features \<Rightarrow> model d features)"

text \<open>
  The first statement of \<open>process_audio_chunk\<close>: a chunk shorter than \<open>chunk_size\<close> is
  padded with \<open>np.pad(audio_chunk, (0, self.chunk_size - len(audio_chunk)))\<close>.
\<close>

definition pad_audio_chunk :: "detector \<Rightarrow> real list \<Rightarrow> real list" where
  "pad_audio_chunk d audio_chunk =
     (if int (length audio_chunk) < chunk_size d then
        np_pad_right (nat (chunk_size d - int (length audio_chunk))) audio_chunk
      else audio_chunk)"

text \<open>
  \<open>process_audio_chunk\<close>. The result is what the call returns or raises, the detector
  and the log after it. An exception leaves the fields as they are at that point.
\<close>

definition process_audio_chunk ::
  "config \<Rightarrow> librosa \<Rightarrow> detector \<Rightarrow> action list \<Rightarrow> real list \<Rightarrow>
   (error + real \<times> bool) \<times> detector \<times> action list" where
  "process_audio_chunk cfg L d w audio_chunk =
     (case predict cfg L d (pad_audio_chunk d audio_chunk) of
        Inl e \<Rightarrow> (Inl e, d, w)
      | Inr prediction \<Rightarrow>
          (let is_snore = np_float32_less (NEP50 cfg) prediction (py_float_sub 1 (threshold d));
               d1 = (if is_snore then d\<lparr>snore_count := snore_count d + 1\<rparr>
                     else d\<lparr>snore_count := 0\<rparr>)
           in if snore_threshold_count d1 \<le> snore_count d1 then
                (case vibration_callback d1 of
                   None \<Rightarrow> (Inr (prediction, is_snore), d1\<lparr>snore_count := 0\<rparr>, w)
                 | Some callback \<Rightarrow>
                     (case callback w of
                        (Some e, w') \<Rightarrow> (Inl e, d1, w')
                      | (None, w') \<Rightarrow> (Inr (prediction, is_snore), d1\<lparr>snore_count := 0\<rparr>, w')))
              else (Inr (prediction, is_snore), d1, w)))"

text \<open>The module's own callback \<open>vibration_alert\<close> prints a line.\<close>

definition vibration_alert :: "action list \<Rightarrow> error option \<times> action list" where
  "vibration_alert w = (None, w @ [Print Msg_vibration_alert])"

text \<open>
  A sequence of calls of \<open>process_audio_chunk\<close> on one detector, each on the state the
  previous one left.
\<close>

fun process_audio_chunks ::
  "config \<Rightarrow> librosa \<Rightarrow> detector \<Rightarrow> action list \<Rightarrow> real list list \<Rightarrow> detector \<times> action list" where
  "process_audio_chunks cfg L d w [] = (d, w)"
| "process_audio_chunks cfg L d w (c # cs) =
     (case process_audio_chunk cfg L d w c of
        (_, d', w') \<Rightarrow> process_audio_chunks cfg L d' w' cs)"

section \<open>realtime/realtime_detection.py: the detection session\<close>

text \<open>
  \<open>deque.extend\<close> on a deque of bounded length drops the oldest elements;
  \<open>xs[-n:]\<close> is Python's slice (all of \<open>xs\<close> when \<open>n = 0\<close>).
\<close>

definition deque_extend :: "nat \<Rightarrow> 'a list \<Rightarrow> 'a list \<Rightarrow> 'a list" where
  "deque_extend maxlen buf xs = drop (length (buf @ xs) - maxlen) (buf @ xs)"

definition py_slice_last :: "int \<Rightarrow> 'a list \<Rightarrow> 'a list" where
  "py_slice_last n xs =
     (if 0 < n then drop (length xs - nat n) xs else drop (nat (- n)) xs)"

text \<open>
  The \<open>while self.is_running\<close> loop of \<open>start_detection\<close>, with its inner
  \<open>try ... except Exception\<close>. Each iteration reads the stream once; the list holds what
  the successive reads return or raise. \<open>print\<close> and \<open>time.sleep\<close> return normally.
\<close>

fun detection_loop ::
  "config \<Rightarrow> librosa \<Rightarrow> detector \<Rightarrow> action list \<Rightarrow> (error + real list) list \<Rightarrow>
   outcome \<times> detector \<times> action list" where
  "detection_loop cfg L d w [] = (if is_running d then (Pending, d, w) else (Returned, d, w))"
| "detection_loop cfg L d w (r # rs) =
     (if \<not> is_running d then (Returned, d, w)
      else
        (case r of
           Inl e \<Rightarrow>
             (if is_Exception e then
                detection_loop cfg L d (w @ [Stream_read, Print (Msg_audio_error e), Sleep]) rs
              else (Raised e, d, w @ [Stream_read]))
         | Inr audio_data \<Rightarrow>
             (let d1 = d\<lparr>audio_buffer := deque_extend (buffer_maxlen d) (audio_buffer d) audio_data\<rparr>;
                  w1 = w @ [Stream_read]
              in if chunk_size d1 \<le> int (length (audio_buffer d1)) then
                   (case process_audio_chunk cfg L d1 w1
                           (py_slice_last (chunk_size d1) (audio_buffer d1)) of
                      (Inl e, d2, w2) \<Rightarrow>
                        (if is_Exception e then
                           detection_loop cfg L d2 (w2 @ [Print (Msg_audio_error e), Sleep]) rs
                         else (Raised e, d2, w2))
                    | (Inr (prediction, is_snore), d2, w2) \<Rightarrow>
                        detection_loop cfg L d2
                          (w2 @ [Print (Msg_status (1 - prediction) is_snore)]
                              @ (if snore_count d2 = snore_threshold_count d2
                                 then [Print (Msg_trigger prediction)] else [])
                              @ [Sleep]) rs)
                 else detection_loop cfg L d1 (w1 @ [Sleep]) rs)))"

definition stop_detection :: "detector \<Rightarrow> action list \<Rightarrow> detector \<times> action list" where
  "stop_detection d w =
     (d\<lparr>is_running := False\<rparr>,
      w @ (if audio_stream d \<noteq> None then [Stream_stop, Stream_close] else [])
        @ (if pyaudio_instance d \<noteq> None then [PyAudio_terminate] else [])
        @ [Print Msg_stopped])"

text \<open>The outcomes of the PyAudio calls that \<open>start_detection\<close> makes before the loop.\<close>

record pyaudio =
  PyAudio_raises :: "error option"
  open_raises :: "error option"
  start_stream_raises :: "error option"

definition start_detection ::
  "config \<Rightarrow> librosa \<Rightarrow> pyaudio \<Rightarrow> detector \<Rightarrow> action list \<Rightarrow> (error + real list) list \<Rightarrow>
   outcome \<times> detector \<times> action list" where
  "start_detection cfg L pa d w reads =
     (if is_running d then (Returned, d, w @ [Print Msg_already_running])
      else
        (let d1 = d\<lparr>is_running := True\<rparr>; w1 = w @ [PyAudio_new] in
         case PyAudio_raises pa of
           Some e \<Rightarrow> (Raised e, d1, w1)
         | None \<Rightarrow>
        (let d2 = d1\<lparr>pyaudio_instance := Some ()\<rparr>;
             w2 = w1 @ [Print Msg_input_devices, List_devices, Print Msg_opening_stream, Stream_open] in
         case open_raises pa of
           Some e \<Rightarrow>
             (if is_Exception e then
                (Returned, d2\<lparr>is_running := False\<rparr>,
                 w2 @ [Print (Msg_cannot_open_stream e), Print Msg_check_microphone])
              else (Raised e, d2, w2))
         | None \<Rightarrow>
        (let d3 = d2\<lparr>audio_stream := Some ()\<rparr>; w3 = w2 @ [Stream_start] in
         case start_stream_raises pa of
           Some e \<Rightarrow> (Raised e, d3, w3)
         | None \<Rightarrow>
             (case detection_loop cfg L d3
                     (w3 @ [Print Msg_stream_started, Print Msg_monitoring_banner]) reads of
                (Pending, d4, w4) \<Rightarrow> (Pending, d4, w4)
              | (Returned, d4, w4) \<Rightarrow>
                  (case stop_detection d4 w4 of (d5, w5) \<Rightarrow> (Returned, d5, w5))
              | (Raised e, d4, w4) \<Rightarrow>
                  (if e = KeyboardInterrupt then
                     (case stop_detection d4 (w4 @ [Print Msg_interrupted]) of
                        (d5, w5) \<Rightarrow> (Returned, d5, w5))
                   else if is_Exception e then
                     (case stop_detection d4 (w4 @ [Print (Msg_runtime_error e)]) of
                        (d5, w5) \<Rightarrow> (Returned, d5, w5))
                   else
                     (case stop_detection d4 w4 of (d5, w5) \<Rightarrow> (Raised e, d5, w5))))))))"

section \<open>realtime/vibration_control.py\<close>

text \<open>
  What the host offers when a controller is built: whether each import and each driver
  call raises, whether \<open>platform.system()\<close> names Linux, and whether \<open>/proc/cpuinfo\<close>
  can be read and names a Raspberry Pi.
\<close>

record hardware =
  import_RPi_GPIO :: "error option"
  GPIO_setmode :: "error option"
  GPIO_setup :: "error option"
  GPIO_PWM :: "error option"
  pwm_start :: "error option"
  import_serial :: "error option"
  serial_Serial :: "error option"
  platform_is_linux :: bool
  cpuinfo_names_pi :: "error + bool"

text \<open>
  A controller object: \<open>is_vibrating\<close>, then the constructor's arguments, then whether the
  driver objects (\<open>GPIO\<close> and \<open>pwm\<close>, or \<open>serial\<close>) are set rather than \<open>None\<close>.
\<close>

datatype controller =
    RaspberryPiVibrationController bool nat bool
  | ArduinoVibrationController bool string nat bool
  | SimulatedVibrationController bool

text \<open>The exception that ends a block of calls made in order, if one of them raises.\<close>

fun first_raised :: "error option list \<Rightarrow> error option" where
  "first_raised [] = None"
| "first_raised (None # rs) = first_raised rs"
| "first_raised (Some e # rs) = Some e"

text \<open>\<open>RaspberryPiVibrationController.__init__\<close>: the \<open>try\<close> block has one handler, \<open>except ImportError\<close>.\<close>

definition RaspberryPiVibrationController_init ::
  "hardware \<Rightarrow> nat \<Rightarrow> action list \<Rightarrow> (error + controller) \<times> action list" where
  "RaspberryPiVibrationController_init hw pin w =
     (case first_raised [import_RPi_GPIO hw, GPIO_setmode hw, GPIO_setup hw, GPIO_PWM hw, pwm_start hw] of
        None \<Rightarrow> (Inr (RaspberryPiVibrationController False pin True),
                 w @ [Gpio_call, Print Msg_pi_initialized])
      | Some e \<Rightarrow>
          (if e = ImportError then
             (Inr (RaspberryPiVibrationController False pin False), w @ [Print Msg_no_gpio_library])
           else (Inl e, w @ [Gpio_call])))"

text \<open>
  \<open>ArduinoVibrationController.__init__\<close>: handlers \<open>except ImportError\<close> and
  \<open>except Exception\<close>; \<open>serial\<close> stays \<open>None\<close> when the block raises.
\<close>

definition ArduinoVibrationController_init ::
  "hardware \<Rightarrow> string \<Rightarrow> nat \<Rightarrow> action list \<Rightarrow> (error + controller) \<times> action list" where
  "ArduinoVibrationController_init hw port baudrate w =
     (case first_raised [import_serial hw, serial_Serial hw] of
        None \<Rightarrow> (Inr (ArduinoVibrationController False port baudrate True),
                 w @ [Serial_call, Sleep, Print Msg_arduino_initialized])
      | Some e \<Rightarrow>
          (if e = ImportError then
             (Inr (ArduinoVibrationController False port baudrate False), w @ [Print Msg_no_pyserial])
           else if is_Exception e then
             (Inr (ArduinoVibrationController False port baudrate False),
              w @ [Serial_call, Print (Msg_no_arduino e)])
           else (Inl e, w @ [Serial_call])))"

text \<open>
  \<open>create_vibration_controller\<close>. Reading \<open>/proc/cpuinfo\<close> stands in a \<open>try\<close> with a bare
  \<open>except\<close>, which catches every exception.
\<close>

definition create_vibration_controller ::
  "hardware \<Rightarrow> string \<Rightarrow> action list \<Rightarrow> (error + controller) \<times> action list" where
  "create_vibration_controller hw controller_type w =
     (let controller_type' =
        (if controller_type = ''auto'' then
           (if platform_is_linux hw then
              (case cpuinfo_names_pi hw of
                 Inr names_pi \<Rightarrow> (if names_pi then ''raspberrypi'' else ''simulated'')
               | Inl e \<Rightarrow> ''simulated'')
            else ''simulated'')
         else controller_type)
      in if controller_type' = ''raspberrypi'' then RaspberryPiVibrationController_init hw 18 w
         else if controller_type' = ''arduino'' then ArduinoVibrationController_init hw ''COM3'' 9600 w
         else (Inr (SimulatedVibrationController False), w))"

section \<open>The real-time entry points\<close>

text \<open>
  The three scripts that start a real-time session check the model file first. What they
  do once the file exists (build the controller, load the model, run the session) is the
  parameter \<open>session\<close>. \<open>exit_status\<close> is the status the interpreter ends with: 0 when
  the script's top level returns, the argument of an uncaught \<open>SystemExit\<close>, 1 for any
  other uncaught exception.
\<close>

record os_path =
  isabs :: "string \<Rightarrow> bool"
  abspath_from_script :: "string \<Rightarrow> string"
  path_exists :: "string \<Rightarrow> bool"

fun exit_status :: "outcome \<Rightarrow> int option" where
  "exit_status Returned = Some 0"
| "exit_status (Raised (SystemExit n)) = Some n"
| "exit_status (Raised _) = Some 1"
| "exit_status Pending = None"

text \<open>\<open>realtime_main.py\<close>, \<open>main()\<close>; \<open>model_arg\<close> is the value of \<open>--model\<close>.\<close>

definition realtime_main ::
  "os_path \<Rightarrow> string \<Rightarrow> (string \<Rightarrow> outcome \<times> action list) \<Rightarrow> outcome \<times> action list" where
  "realtime_main os model_arg session =
     (let model_path = (if \<not> isabs os model_arg then abspath_from_script os model_arg else model_arg)
      in if \<not> path_exists os model_path then
           (Returned, [Print Msg_model_missing, Print Msg_train_model_first])
         else session model_path)"

text \<open>\<open>start_monitoring.py\<close>, \<open>main()\<close>.\<close>

definition start_monitoring_main ::
  "os_path \<Rightarrow> string \<Rightarrow> (string \<Rightarrow> outcome \<times> action list) \<Rightarrow> outcome \<times> action list" where
  "start_monitoring_main os model_path session =
     (if \<not> path_exists os model_path then
        (Returned, [Print Msg_model_missing, Print Msg_train_model_first])
      else session model_path)"

text \<open>\<open>realtime_detection.py\<close> run as a script: \<open>exit(1)\<close> raises \<open>SystemExit(1)\<close>.\<close>

definition realtime_detection_script ::
  "os_path \<Rightarrow> string \<Rightarrow> (string \<Rightarrow> outcome \<times> action list) \<Rightarrow> outcome \<times> action list" where
  "realtime_detection_script os model_path session =
     (if \<not> path_exists os model_path then
        (Raised (SystemExit 1), [Print Msg_model_missing, Print Msg_train_model_first])
      else session model_path)"

section \<open>The debounce rule as the specification words it\<close>

text \<open>
  A positive window adds one to the count of consecutive positives; when the count
  reaches \<open>threshold_count\<close> one alert is emitted and the count goes back to 0; a negative
  window sets the count to 0. The state is the count and the number of alerts emitted so
  far; \<open>positive\<close> says which scores classify as positive.
\<close>

fun debounce_spec :: "(real \<Rightarrow> bool) \<Rightarrow> int \<Rightarrow> int \<times> nat \<Rightarrow> real list \<Rightarrow> int \<times> nat" where
  "debounce_spec positive n (count, alerts) [] = (count, alerts)"
| "debounce_spec positive n (count, alerts) (s # ss) =
     (if positive s then
        (if count + 1 = n then debounce_spec positive n (0, Suc alerts) ss
         else debounce_spec positive n (count + 1, alerts) ss)
      else debounce_spec positive n (0, alerts) ss)"

text \<open>
  The number a score is compared with: \<open>1 - threshold\<close> as Python computes it, converted
  to float32 when NumPy compares in float32.
\<close>

definition snore_limit :: "config \<Rightarrow> detector \<Rightarrow> real" where
  "snore_limit cfg d =
     (if NEP50 cfg then fl_round 24 (fl_round 53 (1 - threshold d))
      else fl_round 53 (1 - threshold d))"

text \<open>The scores of the windows that were scored, in order.\<close>

fun scored :: "(error + real) list \<Rightarrow> real list" where
  "scored [] = []"
| "scored (Inr s # rs) = s # scored rs"
| "scored (Inl e # rs) = scored rs"


text \<open>The callback returns normally on every log (or there is none).\<close>

definition callback_returns :: "detector \<Rightarrow> bool" where
  "callback_returns d =
     (case vibration_callback d of None \<Rightarrow> True | Some cb \<Rightarrow> (\<forall>w. fst (cb w) = None))"

text \<open>The log after \<open>k\<close> calls of the detector's callback, one after the other.\<close>

definition after_alerts :: "detector \<Rightarrow> nat \<Rightarrow> action list \<Rightarrow> action list" where
  "after_alerts d k w =
     (case vibration_callback d of None \<Rightarrow> w | Some cb \<Rightarrow> ((\<lambda>u. snd (cb u)) ^^ k) w)"

text \<open>
  The shape rule for feature tensors as the specification words it: every row is cut on
  the right to \<open>t\<close> columns, or filled on the right with zeros up to \<open>t\<close> columns.
\<close>

definition fit_time_steps :: "nat \<Rightarrow> npfloat list list \<Rightarrow> npfloat list list" where
  "fit_time_steps t a = map (\<lambda>r. take t r @ replicate (t - length r) (Fin 0)) a"


section \<open>Concrete inputs\<close>

text \<open>
  A small configuration, a librosa stand-in whose features are one row holding the first
  sample, a classifier that returns the first feature value as the score, and a detector
  as \<open>__init__\<close> builds it with \<open>threshold = 0.5\<close> and the callback \<open>vibration_alert\<close>.
\<close>

definition cfg0 :: config where
  "cfg0 = \<lparr>SR = 2, N_MFCC = 1, N_MELS = 1, TIME_STEPS = 3, NEP50 = True\<rparr>"

definition librosa0 :: librosa where
  "librosa0 = \<lparr>
     librosa_load = (\<lambda>p sr. Inr ([0, 0], sr)),
     feature_mfcc = (\<lambda>y sr n. Inr [take 1 y]),
     feature_melspectrogram = (\<lambda>y sr n. Inr [take 1 y]) \<rparr>"

definition model0 :: "npfloat list list list \<Rightarrow> error + real" where
  "model0 t = (case t of [(Fin s # _) # _] \<Rightarrow> Inr s | _ \<Rightarrow> Inl ValueError)"

definition detector0 :: detector where
  "detector0 = \<lparr>
     model = model0,
     chunk_duration = 1,
     overlap = 1 / 2,
     vibration_callback = Some vibration_alert,
     threshold = 1 / 2,
     chunk_size = 2,
     hop_size = 1,
     audio_buffer = [],
     buffer_maxlen = 6,
     is_running = False,
     audio_stream = None,
     pyaudio_instance = None,
     snore_count = 0,
     snore_threshold_count = 3 \<rparr>"

definition pyaudio0 :: pyaudio where
  "pyaudio0 = \<lparr>PyAudio_raises = None, open_raises = None, start_stream_raises = None\<rparr>"


text \<open>
  A running detector whose counter stands at 2: \<open>detector1\<close> with a classifier that
  raises, \<open>detector2\<close> with the working one; a librosa whose calls raise; a PyAudio whose
  \<open>open\<close> raises.
\<close>

definition detector1 :: detector where
  "detector1 = detector0\<lparr>is_running := True, snore_count := 2, model := (\<lambda>t. Inl RuntimeError)\<rparr>"

definition detector2 :: detector where
  "detector2 = detector0\<lparr>is_running := True, snore_count := 2\<rparr>"

definition librosa_raises :: librosa where
  "librosa_raises = \<lparr>
     librosa_load = (\<lambda>p sr. Inl OSError),
     feature_mfcc = (\<lambda>y sr n. Inl ValueError),
     feature_melspectrogram = (\<lambda>y sr n. Inl ValueError) \<rparr>"

definition pyaudio1 :: pyaudio where
  "pyaudio1 = \<lparr>PyAudio_raises = None, open_raises = Some OSError, start_stream_raises = None\<rparr>"

text \<open>
  A file system where no path exists. A host that is not a Raspberry Pi, on which
  importing \<open>RPi.GPIO\<close> raises \<open>RuntimeError\<close> and no Arduino answers on the serial port;
  a Raspberry Pi on which \<open>GPIO.setup\<close> raises \<open>RuntimeError\<close> (no access to the GPIO
  device).
\<close>

definition os_path0 :: os_path where
  "os_path0 = \<lparr>isabs = (\<lambda>p. True), abspath_from_script = (\<lambda>p. p), path_exists = (\<lambda>p. False)\<rparr>"

definition hardware0 :: hardware where
  "hardware0 = \<lparr>
     import_RPi_GPIO = Some RuntimeError,
     GPIO_setmode = None, GPIO_setup = None, GPIO_PWM = None, pwm_start = None,
     import_serial = None, serial_Serial = Some SerialException,
     platform_is_linux = True, cpuinfo_names_pi = Inr False \<rparr>"

definition hardware1 :: hardware where
  "hardware1 = \<lparr>
     import_RPi_GPIO = None,
     GPIO_setmode = None, GPIO_setup = Some RuntimeError, GPIO_PWM = None, pwm_start = None,
     import_serial = Some ImportError, serial_Serial = None,
     platform_is_linux = True, cpuinfo_names_pi = Inr True \<rparr>"

text \<open>A constant signal with constant features, and a configuration with two time steps.\<close>

definition librosa_flat :: librosa where
  "librosa_flat = \<lparr>
     librosa_load = (\<lambda>p sr. Inr ([5, 5], sr)),
     feature_mfcc = (\<lambda>y sr n. Inr [y]),
     feature_melspectrogram = (\<lambda>y sr n. Inr [y]) \<rparr>"

definition cfg1 :: config where
  "cfg1 = \<lparr>SR = 2, N_MFCC = 1, N_MELS = 1, TIME_STEPS = 2, NEP50 = True\<rparr>"

text \<open>
  A callback that raises, as \<open>vibrate\<close> of the simulated controller does when its duration
  is negative, and a detector using it.
\<close>

definition alert_raises :: "action list \<Rightarrow> error option \<times> action list" where
  "alert_raises w = (Some ValueError, w @ [Print Msg_vibration_alert])"

definition detector3 :: detector where
  "detector3 = detector0\<lparr>vibration_callback := Some alert_raises\<rparr>"

section \<open>Auxiliary facts\<close>

lemma fl_round_binade:
  assumes "x \<noteq> 0" "2 powi e \<le> \<bar>x\<bar>" "\<bar>x\<bar> < 2 powi (e + 1)"
  shows "fl_round p x =
     of_int (round_half_even (x / 2 powi (e - int p + 1))) * 2 powi (e - int p + 1)"
proof -
  have lo: "(2 :: real) powr real_of_int e = 2 powi e"
    and hi: "(2 :: real) powr (real_of_int e + 1) = 2 powi (e + 1)"
    using powr_real_of_int'[of "2 :: real" e] powr_real_of_int'[of "2 :: real" "e + 1"]
    by simp_all
  have "0 < \<bar>x\<bar>"
    using assms(1) by simp
  then have "\<lfloor>log 2 \<bar>x\<bar>\<rfloor> = e"
    using assms(2,3) by (simp add: floor_log_eq_powr_iff lo hi)
  then show ?thesis
    using assms(1) by (simp add: fl_round_def Let_def)
qed

lemma fl_round_half [simp]: "fl_round 53 (1 / 2) = 1 / 2" "fl_round 24 (1 / 2) = 1 / 2"
  by (simp_all add: fl_round_binade[where e = "-1"] round_half_even_def power_int_minus)

lemma np_float32_less_limit:
  "np_float32_less (NEP50 cfg) s (py_float_sub 1 (threshold d)) = (s < snore_limit cfg d)"
  by (simp add: np_float32_less_def py_float_sub_def snore_limit_def)

lemma snore_limit_detector0 [simp]: "snore_limit cfg detector0 = 1 / 2"
  by (simp add: snore_limit_def detector0_def)

lemma predict_audio_buffer [simp]:
  "predict cfg L (d\<lparr>audio_buffer := b\<rparr>) x = predict cfg L d x"
  by (simp add: predict_def split: sum.splits)

lemma pad_audio_chunk_audio_buffer [simp]:
  "pad_audio_chunk (d\<lparr>audio_buffer := b\<rparr>) x = pad_audio_chunk d x"
  by (simp add: pad_audio_chunk_def)

lemma predict_snore_count [simp]:
  "predict cfg L (d\<lparr>snore_count := n\<rparr>) x = predict cfg L d x"
  by (simp add: predict_def split: sum.splits)

lemma pad_audio_chunk_snore_count [simp]:
  "pad_audio_chunk (d\<lparr>snore_count := n\<rparr>) x = pad_audio_chunk d x"
  by (simp add: pad_audio_chunk_def)

lemma callback_returnsD:
  "callback_returns d \<Longrightarrow> vibration_callback d = Some cb \<Longrightarrow> \<exists>w'. cb w = (None, w')"
  by (cases "cb w") (auto simp: callback_returns_def dest: spec[where x = w])

lemma callback_returns_detector0: "callback_returns detector0"
  by (simp add: callback_returns_def detector0_def vibration_alert_def)

lemma predict_detector0:
  "predict cfg0 librosa0 detector0 (pad_audio_chunk detector0 [s]) = Inr s"
  by (simp add: predict_def extract_features_def cfg0_def librosa0_def detector0_def model0_def
      pad_audio_chunk_def np_pad_right_def np_concatenate0_def shape1_def np_mean_def np_std_def
      np_pad_cols_def slice_cols_def Let_def)

lemma extract_features_NEP50 [simp]:
  "extract_features (cfg\<lparr>NEP50 := b\<rparr>) L x = extract_features cfg L x"
  by (simp add: extract_features_def Let_def split: sum.splits)

lemma predict_NEP50 [simp]: "predict (cfg\<lparr>NEP50 := b\<rparr>) L d x = predict cfg L d x"
  by (simp add: predict_def)

lemma predict_threshold [simp]: "predict cfg L (d\<lparr>threshold := t\<rparr>) x = predict cfg L d x"
  by (simp add: predict_def split: sum.splits)

lemma pad_audio_chunk_threshold [simp]:
  "pad_audio_chunk (d\<lparr>threshold := t\<rparr>) x = pad_audio_chunk d x"
  by (simp add: pad_audio_chunk_def)

lemma predict_vibration_callback [simp]:
  "predict cfg L (d\<lparr>vibration_callback := c\<rparr>) x = predict cfg L d x"
  by (simp add: predict_def split: sum.splits)

lemma pad_audio_chunk_vibration_callback [simp]:
  "pad_audio_chunk (d\<lparr>vibration_callback := c\<rparr>) x = pad_audio_chunk d x"
  by (simp add: pad_audio_chunk_def)

lemma callback_returns_threshold [simp]:
  "callback_returns (d\<lparr>threshold := t\<rparr>) = callback_returns d"
  by (simp add: callback_returns_def)

section \<open>Starting a detector that is already running\<close>

text \<open>
  Claim C10. \<open>start_detection\<close> on a detector whose \<open>is_running\<close> is set returns at once:
  every field of the detector is as before, and the only effect is the printed notice
  (no PyAudio instance is made, no stream opened or read).
\<close>

theorem start_detection_already_running:
  assumes "is_running d"
  shows "start_detection cfg L pa d w reads = (Returned, d, w @ [Print Msg_already_running])"
  using assms by (simp add: start_detection_def)

theorem start_detection_already_running_witness:
  "is_running (detector0\<lparr>is_running := True\<rparr>)
   \<and> start_detection cfg0 librosa0 pyaudio0 (detector0\<lparr>is_running := True\<rparr>) [] [Inr [1, 1]]
       = (Returned, detector0\<lparr>is_running := True\<rparr>, [Print Msg_already_running])"
  using start_detection_already_running[of "detector0\<lparr>is_running := True\<rparr>" cfg0 librosa0 pyaudio0 "[]" "[Inr [1, 1]]"]
  by simp

section \<open>Shape of the feature tensor\<close>

lemma is_2d_rows: "is_2d a \<Longrightarrow> r \<in> set a \<Longrightarrow> length r = shape1 a"
  by (simp add: is_2d_def list_all_iff)

lemma is_2d_append:
  assumes "is_2d a" "is_2d b" "shape1 a = shape1 b"
  shows "is_2d (a @ b)" and "shape1 (a @ b) = shape1 a"
proof -
  show s: "shape1 (a @ b) = shape1 a"
    using assms(3) by (cases a) (simp_all add: shape1_def)
  show "is_2d (a @ b)"
    using assms unfolding is_2d_def s by (auto simp: list_all_iff)
qed

lemma shape1_map_map [simp]: "shape1 (map (map f) a) = shape1 a"
  by (cases a) (simp_all add: shape1_def)

lemma is_2d_map_map [simp]: "is_2d (map (map f) a) = is_2d a"
  by (simp add: is_2d_def list_all_iff)

lemma fit_when_2d:
  assumes "is_2d a"
  shows "(if shape1 a \<noteq> t then
            (if shape1 a < t then np_pad_cols (t - shape1 a) a else slice_cols t a)
          else a) = fit_time_steps t a"
proof -
  have rows: "\<forall>r\<in>set a. length r = shape1 a"
    using is_2d_rows[OF assms] by blast
  consider (pad) "shape1 a < t" | (cut) "t < shape1 a" | (same) "shape1 a = t"
    by linarith
  then show ?thesis
  proof cases
    case pad
    with rows show ?thesis
      by (simp add: np_pad_cols_def fit_time_steps_def)
  next
    case cut
    with rows show ?thesis
      by (simp add: slice_cols_def fit_time_steps_def)
  next
    case same
    have "map (\<lambda>r. take t r @ replicate (t - length r) (Fin 0)) a = a"
      using rows same by (intro map_idI) simp
    with same show ?thesis
      by (simp add: fit_time_steps_def)
  qed
qed







lemma map_sum_Some_eq [simp]: "map_sum id Some r = Inr (Some x) \<longleftrightarrow> r = Inr x"
  by (cases r) auto









section \<open>Failure to open the audio stream\<close>

text \<open>
  Claim C8. When \<open>start_detection\<close> is called on a stopped detector and opening the
  audio stream raises an exception (a subclass of \<open>Exception\<close>), it prints the failure,
  sets \<open>is_running\<close> back to \<open>False\<close> and returns: the stream is never started or read,
  the processing loop is not entered, and apart from \<open>pyaudio_instance\<close> the detector is
  as before.
\<close>

theorem start_detection_open_failure:
  assumes "\<not> is_running d" and "PyAudio_raises pa = None"
    and "open_raises pa = Some e" and "is_Exception e"
  shows "start_detection cfg L pa d w reads =
     (Returned, d\<lparr>is_running := False, pyaudio_instance := Some ()\<rparr>,
      w @ [PyAudio_new, Print Msg_input_devices, List_devices, Print Msg_opening_stream,
           Stream_open, Print (Msg_cannot_open_stream e), Print Msg_check_microphone])"
  using assms by (simp add: start_detection_def Let_def)

theorem start_detection_open_failure_witness:
  "\<not> is_running detector0 \<and> PyAudio_raises pyaudio1 = None
   \<and> open_raises pyaudio1 = Some OSError \<and> is_Exception OSError
   \<and> start_detection cfg0 librosa0 pyaudio1 detector0 [] [Inr [1, 1]] =
     (Returned, detector0\<lparr>is_running := False, pyaudio_instance := Some ()\<rparr>,
      [PyAudio_new, Print Msg_input_devices, List_devices, Print Msg_opening_stream,
       Stream_open, Print (Msg_cannot_open_stream OSError), Print Msg_check_microphone])"
proof -
  have h: "\<not> is_running detector0" "PyAudio_raises pyaudio1 = None"
    "open_raises pyaudio1 = Some OSError" "is_Exception OSError"
    by (simp_all add: detector0_def pyaudio1_def)
  show ?thesis
    using h start_detection_open_failure[OF h, of cfg0 librosa0 "[]" "[Inr [1, 1]]"] by simp
qed

section \<open>An exception while a window is processed\<close>

text \<open>
  Claim C6, as the code has it. In a running detection loop, when feature extraction or
  inference for the window of this iteration raises an exception (a subclass of
  \<open>Exception\<close>), the loop prints it, sleeps and goes on with the next iteration; the
  only field of the detector that changed is the audio buffer, so the counter of
  consecutive positives keeps its value (it is not reset).
\<close>

theorem loop_contains_window_error:
  assumes "is_running d"
    and "buf = deque_extend (buffer_maxlen d) (audio_buffer d) audio_data"
    and "chunk_size d \<le> int (length buf)"
    and "predict cfg L d (pad_audio_chunk d (py_slice_last (chunk_size d) buf)) = Inl e"
    and "is_Exception e"
  shows "detection_loop cfg L d w (Inr audio_data # rs) =
           detection_loop cfg L (d\<lparr>audio_buffer := buf\<rparr>)
             (w @ [Stream_read, Print (Msg_audio_error e), Sleep]) rs
         \<and> snore_count (d\<lparr>audio_buffer := buf\<rparr>) = snore_count d"
  using assms by (simp add: process_audio_chunk_def Let_def)

lemma predict_detector1: "predict cfg0 librosa0 detector1 x = Inl RuntimeError"
  by (simp add: predict_def extract_features_def cfg0_def librosa0_def detector1_def detector0_def
      np_concatenate0_def shape1_def Let_def)

theorem loop_contains_window_error_witness:
  "is_running detector1
   \<and> chunk_size detector1 \<le> int (length (deque_extend (buffer_maxlen detector1) (audio_buffer detector1) [1, 1]))
   \<and> predict cfg0 librosa0 detector1 (pad_audio_chunk detector1 (py_slice_last (chunk_size detector1) [1, 1])) = Inl RuntimeError
   \<and> is_Exception RuntimeError
   \<and> detection_loop cfg0 librosa0 detector1 [] [Inr [1, 1]] =
       (Pending, detector1\<lparr>audio_buffer := [1, 1]\<rparr>,
        [Stream_read, Print (Msg_audio_error RuntimeError), Sleep])
   \<and> snore_count (detector1\<lparr>audio_buffer := [1, 1]\<rparr>) = 2"
proof -
  have buf: "[1, 1] = deque_extend (buffer_maxlen detector1) (audio_buffer detector1) [1, 1]"
    by (simp add: deque_extend_def detector1_def detector0_def)
  have h: "is_running detector1" "chunk_size detector1 \<le> int (length [1 :: real, 1])" "is_Exception RuntimeError"
    by (simp_all add: detector1_def detector0_def)
  have sc: "snore_count detector1 = 2"
    by (simp add: detector1_def)
  show ?thesis
    using loop_contains_window_error[OF h(1) buf h(2) predict_detector1 h(3), of "[]" "[]"]
      h buf[symmetric] predict_detector1 sc
    by simp
qed

text \<open>
  Claim C6 as stated fails: with the counter at 2, a window whose feature extraction
  raises \<open>ValueError\<close> leaves the counter at 2, not 0, and the loop goes on.
\<close>

theorem error_reset_counterexample:
  "extract_features cfg0 librosa_raises [1, 1] = Inl ValueError
   \<and> is_running detector2 \<and> snore_count detector2 = 2
   \<and> detection_loop cfg0 librosa_raises detector2 [] [Inr [1, 1]] =
       (Pending, detector2\<lparr>audio_buffer := [1, 1]\<rparr>,
        [Stream_read, Print (Msg_audio_error ValueError), Sleep])
   \<and> snore_count (detector2\<lparr>audio_buffer := [1, 1]\<rparr>) \<noteq> 0"
  by (simp add: detector2_def detector0_def librosa_raises_def cfg0_def extract_features_def
      predict_def process_audio_chunk_def pad_audio_chunk_def py_slice_last_def deque_extend_def Let_def)

section \<open>Padding of a short window\<close>

text \<open>
  Claim C5 as stated fails: a chunk of two samples with \<open>chunk_size = 4\<close> is filled with
  zeros on the right, not on the left, and the classifier is applied to that window.
\<close>

theorem window_padding_counterexample:
  "int (length [1 :: real, 2]) < chunk_size (detector0\<lparr>chunk_size := 4\<rparr>)
   \<and> pad_audio_chunk (detector0\<lparr>chunk_size := 4\<rparr>) [1, 2] = [1, 2, 0, 0]
   \<and> pad_audio_chunk (detector0\<lparr>chunk_size := 4\<rparr>) [1, 2] \<noteq> [0, 0, 1, 2]
   \<and> fst (process_audio_chunk cfg0 librosa0 (detector0\<lparr>chunk_size := 4\<rparr>) [] [1, 2])
       = fst (process_audio_chunk cfg0 librosa0 (detector0\<lparr>chunk_size := 4\<rparr>) [] [1, 2, 0, 0])
   \<and> fst (process_audio_chunk cfg0 librosa0 (detector0\<lparr>chunk_size := 4\<rparr>) [] [1, 2])
       \<noteq> fst (process_audio_chunk cfg0 librosa0 (detector0\<lparr>chunk_size := 4\<rparr>) [] [0, 0, 1, 2])"
  by (simp add: pad_audio_chunk_def np_pad_right_def numeral_2_eq_2 process_audio_chunk_def
      predict_def extract_features_def cfg0_def librosa0_def detector0_def model0_def
      np_concatenate0_def shape1_def np_mean_def np_std_def np_pad_cols_def slice_cols_def
      np_float32_less_def py_float_sub_def Let_def)

text \<open>
  Claim C5, as the code has it. A chunk shorter than \<open>chunk_size\<close> that reaches
  \<open>process_audio_chunk\<close> is filled with zeros on the right up to \<open>chunk_size\<close>, and the
  call does what it does on that filled window. A running detection loop takes no window
  while the buffer holds fewer than \<open>chunk_size\<close> samples; once it holds at least
  \<open>chunk_size\<close> (positive) samples, the iteration calls \<open>process_audio_chunk\<close> on the most
  recent \<open>chunk_size\<close> samples of the buffer, to which no padding is added.
\<close>

theorem window_padding:
  assumes "buf = deque_extend (buffer_maxlen d) (audio_buffer d) audio_data"
    and "recent = drop (length buf - nat (chunk_size d)) buf"
  shows "(int (length audio_chunk) < chunk_size d \<longrightarrow>
            pad_audio_chunk d audio_chunk =
              audio_chunk @ replicate (nat (chunk_size d) - length audio_chunk) 0
            \<and> int (length (pad_audio_chunk d audio_chunk)) = chunk_size d
            \<and> process_audio_chunk cfg L d w audio_chunk =
                process_audio_chunk cfg L d w
                  (audio_chunk @ replicate (nat (chunk_size d) - length audio_chunk) 0))
       \<and> (is_running d \<and> int (length buf) < chunk_size d \<longrightarrow>
            detection_loop cfg L d w (Inr audio_data # rs) =
              detection_loop cfg L (d\<lparr>audio_buffer := buf\<rparr>) (w @ [Stream_read, Sleep]) rs)
       \<and> (is_running d \<and> 0 < chunk_size d \<and> chunk_size d \<le> int (length buf) \<longrightarrow>
            int (length recent) = chunk_size d
            \<and> pad_audio_chunk d recent = recent
            \<and> detection_loop cfg L d w (Inr audio_data # rs) =
                (case process_audio_chunk cfg L (d\<lparr>audio_buffer := buf\<rparr>) (w @ [Stream_read]) recent of
                   (Inl e, d2, w2) \<Rightarrow>
                     (if is_Exception e then
                        detection_loop cfg L d2 (w2 @ [Print (Msg_audio_error e), Sleep]) rs
                      else (Raised e, d2, w2))
                 | (Inr (prediction, is_snore), d2, w2) \<Rightarrow>
                     detection_loop cfg L d2
                       (w2 @ [Print (Msg_status (1 - prediction) is_snore)]
                           @ (if snore_count d2 = snore_threshold_count d2
                              then [Print (Msg_trigger prediction)] else [])
                           @ [Sleep]) rs))"
proof (intro conjI impI)
  assume short: "int (length audio_chunk) < chunk_size d"
  then have k: "nat (chunk_size d - int (length audio_chunk)) = nat (chunk_size d) - length audio_chunk"
    by linarith
  show p: "pad_audio_chunk d audio_chunk =
      audio_chunk @ replicate (nat (chunk_size d) - length audio_chunk) 0"
    using short by (simp add: pad_audio_chunk_def np_pad_right_def k)
  then show len: "int (length (pad_audio_chunk d audio_chunk)) = chunk_size d"
    using short by simp
  have "pad_audio_chunk d (pad_audio_chunk d audio_chunk) = pad_audio_chunk d audio_chunk"
    using len by (simp add: pad_audio_chunk_def)
  then show "process_audio_chunk cfg L d w audio_chunk =
      process_audio_chunk cfg L d w
        (audio_chunk @ replicate (nat (chunk_size d) - length audio_chunk) 0)"
    unfolding p[symmetric] by (simp add: process_audio_chunk_def)
next
  assume "is_running d \<and> int (length buf) < chunk_size d"
  then show "detection_loop cfg L d w (Inr audio_data # rs) =
      detection_loop cfg L (d\<lparr>audio_buffer := buf\<rparr>) (w @ [Stream_read, Sleep]) rs"
    using assms(1) by (simp add: Let_def)
next
  assume full: "is_running d \<and> 0 < chunk_size d \<and> chunk_size d \<le> int (length buf)"
  then have "nat (chunk_size d) \<le> length buf"
    by linarith
  then have "length recent = nat (chunk_size d)"
    by (simp add: assms(2))
  with full show len: "int (length recent) = chunk_size d"
    by simp
  then show "pad_audio_chunk d recent = recent"
    by (simp add: pad_audio_chunk_def)
  have slice: "py_slice_last (chunk_size d) buf = recent"
    using full by (simp add: py_slice_last_def assms(2))
  show "detection_loop cfg L d w (Inr audio_data # rs) =
      (case process_audio_chunk cfg L (d\<lparr>audio_buffer := buf\<rparr>) (w @ [Stream_read]) recent of
         (Inl e, d2, w2) \<Rightarrow>
           (if is_Exception e then
              detection_loop cfg L d2 (w2 @ [Print (Msg_audio_error e), Sleep]) rs
            else (Raised e, d2, w2))
       | (Inr (prediction, is_snore), d2, w2) \<Rightarrow>
           detection_loop cfg L d2
             (w2 @ [Print (Msg_status (1 - prediction) is_snore)]
                 @ (if snore_count d2 = snore_threshold_count d2
                    then [Print (Msg_trigger prediction)] else [])
                 @ [Sleep]) rs)"
    using full assms(1) slice by (simp add: Let_def)
qed

text \<open>
  With \<open>chunk_size = 2\<close>: the chunk \<open>[3]\<close> is filled to \<open>[3, 0]\<close>; a running loop whose
  buffer holds one sample after the read takes no window; a loop whose buffer holds
  \<open>[1, 2, 3]\<close> after the read scores the window \<open>[2, 3]\<close>.
\<close>

theorem window_padding_witness:
  "[3] = deque_extend (buffer_maxlen detector2) (audio_buffer detector2) [3]
   \<and> [1, 2, 3] = deque_extend (buffer_maxlen (detector2\<lparr>audio_buffer := [1, 2]\<rparr>))
                (audio_buffer (detector2\<lparr>audio_buffer := [1, 2]\<rparr>)) [3]
   \<and> [2, 3] = drop (length [1 :: real, 2, 3]
                - nat (chunk_size (detector2\<lparr>audio_buffer := [1, 2]\<rparr>))) [1 :: real, 2, 3]
   \<and> int (length [3 :: real]) < chunk_size detector2 \<and> is_running detector2
   \<and> 0 < chunk_size detector2 \<and> chunk_size detector2 \<le> int (length [1 :: real, 2, 3])
   \<and> pad_audio_chunk detector2 [3] = [3, 0]
   \<and> process_audio_chunk cfg0 librosa0 detector2 [] [3] = process_audio_chunk cfg0 librosa0 detector2 [] [3, 0]
   \<and> detection_loop cfg0 librosa0 detector2 [] [Inr [3]] =
       (Pending, detector2\<lparr>audio_buffer := [3]\<rparr>, [Stream_read, Sleep])
   \<and> pad_audio_chunk detector2 [2, 3] = [2, 3]
   \<and> detection_loop cfg0 librosa0 (detector2\<lparr>audio_buffer := [1, 2]\<rparr>) [] [Inr [3]] =
       (Pending, detector2\<lparr>audio_buffer := [1, 2, 3], snore_count := 0\<rparr>,
        [Stream_read, Print (Msg_status (- 1) False), Sleep])"
proof -
  have b1: "[3] = deque_extend (buffer_maxlen detector2) (audio_buffer detector2) [3]"
    and b2: "[1, 2, 3] = deque_extend (buffer_maxlen (detector2\<lparr>audio_buffer := [1, 2]\<rparr>))
                (audio_buffer (detector2\<lparr>audio_buffer := [1, 2]\<rparr>)) [3]"
    by (simp_all add: deque_extend_def detector2_def detector0_def)
  have h: "int (length [3 :: real]) < chunk_size detector2" "is_running detector2"
    "0 < chunk_size detector2" "chunk_size detector2 \<le> int (length [1 :: real, 2, 3])"
    "chunk_size detector2 = 2"
    by (simp_all add: detector2_def detector0_def)
  have r1: "[3 :: real] = drop (length [3 :: real] - nat (chunk_size detector2)) [3]"
    and r2: "[2, 3] = drop (length [1 :: real, 2, 3]
                - nat (chunk_size (detector2\<lparr>audio_buffer := [1, 2]\<rparr>))) [1 :: real, 2, 3]"
    by (simp_all add: h)
  note short = window_padding[OF b1 r1, where audio_chunk = "[3]" and cfg = cfg0 and L = librosa0
      and w = "[]" and rs = "[]", THEN conjunct1, rule_format, OF h(1)]
  have p: "pad_audio_chunk detector2 [3] = [3, 0]"
    using short[THEN conjunct1] by (simp add: h)
  have q: "process_audio_chunk cfg0 librosa0 detector2 [] [3] =
      process_audio_chunk cfg0 librosa0 detector2 [] [3, 0]"
    using short[THEN conjunct2, THEN conjunct2] by (simp add: h)
  have l: "detection_loop cfg0 librosa0 detector2 [] [Inr [3]] =
       (Pending, detector2\<lparr>audio_buffer := [3]\<rparr>, [Stream_read, Sleep])"
    using window_padding[OF b1 r1, where cfg = cfg0 and L = librosa0 and w = "[]" and rs = "[]",
        THEN conjunct2, THEN conjunct1] h
    by simp
  have full: "is_running (detector2\<lparr>audio_buffer := [1, 2]\<rparr>)
      \<and> 0 < chunk_size (detector2\<lparr>audio_buffer := [1, 2]\<rparr>)
      \<and> chunk_size (detector2\<lparr>audio_buffer := [1, 2]\<rparr>) \<le> int (length [1 :: real, 2, 3])"
    by (simp add: h)
  note c = window_padding[OF b2 r2, where cfg = cfg0 and L = librosa0 and w = "[]" and rs = "[]",
      THEN conjunct2, THEN conjunct2, THEN mp, OF full]
  have s2: "pad_audio_chunk detector2 [2, 3] = [2, 3]"
    using c[THEN conjunct2, THEN conjunct1] by simp
  have pc: "process_audio_chunk cfg0 librosa0 (detector2\<lparr>audio_buffer := [1, 2, 3]\<rparr>) [Stream_read] [2, 3]
      = (Inr (2, False), detector2\<lparr>audio_buffer := [1, 2, 3], snore_count := 0\<rparr>, [Stream_read])"
    by (simp add: process_audio_chunk_def predict_def extract_features_def cfg0_def librosa0_def
        detector2_def detector0_def model0_def pad_audio_chunk_def np_concatenate0_def shape1_def
        np_mean_def np_std_def np_pad_cols_def slice_cols_def np_float32_less_def py_float_sub_def
        Let_def)
  have l2: "detection_loop cfg0 librosa0 (detector2\<lparr>audio_buffer := [1, 2]\<rparr>) [] [Inr [3]] =
       (Pending, detector2\<lparr>audio_buffer := [1, 2, 3], snore_count := 0\<rparr>,
        [Stream_read, Print (Msg_status (- 1) False), Sleep])"
    using c[THEN conjunct2, THEN conjunct2]
    by (simp add: pc) (simp add: detector2_def detector0_def)
  show ?thesis
    using b1 b2 r2 h(1-4) p q l s2 l2 by (intro conjI)
qed

section \<open>Normalization of a tensor with zero standard deviation\<close>

text \<open>
  The real-time path has the guard \<open>std > 0\<close>: features whose standard deviation is 0
  pass through unchanged.
\<close>

lemma extract_features_zero_std:
  assumes "feature_mfcc L y (SR cfg) (N_MFCC cfg) = Inr mf"
    and "feature_melspectrogram L y (SR cfg) (Some (N_MELS cfg)) = Inr me"
    and "is_2d mf" "is_2d me" "shape1 mf = shape1 me"
    and "np_std (mf @ me) = Fin 0"
  shows "extract_features cfg L y = Inr [fit_time_steps (TIME_STEPS cfg) (map (map Fin) (mf @ me))]"
proof -
  define n where "n = map (map Fin) (mf @ me)"
  have n2d: "is_2d n"
    unfolding n_def using is_2d_append(1)[OF assms(3-5)] by (simp only: is_2d_map_map)
  have "extract_features cfg L y =
      Inr [if shape1 n \<noteq> TIME_STEPS cfg then
             (if shape1 n < TIME_STEPS cfg then np_pad_cols (TIME_STEPS cfg - shape1 n) n
              else slice_cols (TIME_STEPS cfg) n)
           else n]"
    using assms(1,2,5,6) unfolding n_def
    by (simp add: extract_features_def np_concatenate0_def Let_def)
  then show ?thesis
    unfolding n_def[symmetric] by (simp only: fit_when_2d[OF n2d])
qed

text \<open>
  Claim C3 holds on the real-time path only. The offline \<open>normalize_features\<close> has no
  guard: on the constant tensor of fives the standard deviation is 0 and every element
  becomes \<open>nan\<close> (0 divided by 0), also through \<open>preprocess_file\<close>, while
  \<open>extract_features\<close> returns the same features unchanged.
\<close>

theorem normalize_features_zero_std:
  "np_std [[5, 5], [5, 5]] = Fin 0
   \<and> normalize_features [[5, 5], [5, 5]] = [[NaN, NaN], [NaN, NaN]]
   \<and> preprocess_file cfg1 librosa_flat ''flat.wav'' 0 = Inr (Some ([[NaN, NaN], [NaN, NaN]], 0))
   \<and> extract_features cfg1 librosa_flat [5, 5] = Inr [[[Fin 5, Fin 5], [Fin 5, Fin 5]]]"
  by (simp add: normalize_features_def preprocess_file_def extract_features_def
      extract_mfcc_def extract_mel_spectrogram_def cfg1_def librosa_flat_def
      np_concatenate0_def shape1_def np_mean_def np_std_def Let_def)

section \<open>Missing model file\<close>

text \<open>
  Claim C7 holds for one entry point only. When the model file does not exist, all three
  entry points print the error and neither load the model nor start a session (the
  session parameter is not used); \<open>realtime_detection.py\<close> exits with status 1, but
  \<open>realtime_main.py\<close> and \<open>start_monitoring.py\<close> return from \<open>main\<close> and the process ends
  with status 0.
\<close>

theorem missing_model_exit_status:
  "realtime_main os_path0 p session = (Returned, [Print Msg_model_missing, Print Msg_train_model_first])
   \<and> exit_status (fst (realtime_main os_path0 p session)) = Some 0
   \<and> start_monitoring_main os_path0 p session =
       (Returned, [Print Msg_model_missing, Print Msg_train_model_first])
   \<and> exit_status (fst (start_monitoring_main os_path0 p session)) = Some 0
   \<and> exit_status (fst (realtime_detection_script os_path0 p session)) = Some 1"
  by (simp add: realtime_main_def start_monitoring_main_def realtime_detection_script_def
      os_path0_def)

section \<open>Construction of the vibration controller\<close>

text \<open>
  Claim C9 holds for the Arduino and the simulated controller only. The constructor of
  the Raspberry Pi controller catches \<open>ImportError\<close> alone: when importing \<open>RPi.GPIO\<close>
  or setting up the pin raises \<open>RuntimeError\<close>, the exception leaves the constructor and
  \<open>create_vibration_controller\<close>, also with the selector \<open>auto\<close> on a Raspberry Pi. The
  Arduino constructor on the same host falls back to simulation with a warning.
\<close>

theorem raspberry_pi_constructor_raises:
  "create_vibration_controller hardware0 ''raspberrypi'' [] = (Inl RuntimeError, [Gpio_call])
   \<and> create_vibration_controller hardware1 ''auto'' [] = (Inl RuntimeError, [Gpio_call])
   \<and> create_vibration_controller hardware0 ''arduino'' [] =
       (Inr (ArduinoVibrationController False ''COM3'' 9600 False),
        [Serial_call, Print (Msg_no_arduino SerialException)])"
  by (simp add: create_vibration_controller_def RaspberryPiVibrationController_init_def
      ArduinoVibrationController_init_def hardware0_def hardware1_def)

text \<open>
  No subclass of \<open>Exception\<close> leaves the Arduino constructor, and the Raspberry Pi
  constructor falls back to simulation when the block raises \<open>ImportError\<close>.
\<close>

lemma arduino_constructor_contains:
  "fst (ArduinoVibrationController_init hw port baudrate w) = Inl e \<Longrightarrow> \<not> is_Exception e"
  by (auto simp: ArduinoVibrationController_init_def split: option.splits if_splits)

lemma raspberry_pi_constructor_import_error:
  "first_raised [import_RPi_GPIO hw, GPIO_setmode hw, GPIO_setup hw, GPIO_PWM hw, pwm_start hw]
     = Some ImportError \<Longrightarrow>
   RaspberryPiVibrationController_init hw pin w =
     (Inr (RaspberryPiVibrationController False pin False), w @ [Print Msg_no_gpio_library])"
  by (simp add: RaspberryPiVibrationController_init_def)

section \<open>Score polarity\<close>




section \<open>Debounce\<close>

lemma snore_limit_snore_count [simp]:
  "snore_limit cfg (d\<lparr>snore_count := n\<rparr>) = snore_limit cfg d"
  by (simp add: snore_limit_def)

lemma after_alerts_0 [simp]: "after_alerts d 0 w = w"
  by (simp add: after_alerts_def split: option.splits)

lemma after_alerts_snore_count [simp]:
  "after_alerts (d\<lparr>snore_count := n\<rparr>) k w = after_alerts d k w"
  by (simp add: after_alerts_def)

lemma callback_returns_snore_count [simp]:
  "callback_returns (d\<lparr>snore_count := n\<rparr>) = callback_returns d"
  by (simp add: callback_returns_def)

lemma after_alerts_Suc:
  "vibration_callback d = Some cb \<Longrightarrow> after_alerts d (Suc k) w = after_alerts d k (snd (cb w))"
  using funpow_swap1[of "\<lambda>u. snd (cb u)" k w] by (simp add: after_alerts_def)

lemma after_alerts_None:
  "vibration_callback d = None \<Longrightarrow> after_alerts d k w = w"
  by (simp add: after_alerts_def)

lemma debounce_spec_alerts:
  "debounce_spec P n (c, a) ss =
     (fst (debounce_spec P n (c, 0) ss), a + snd (debounce_spec P n (c, 0) ss))"
proof (induction ss arbitrary: c a)
  case Nil
  show ?case by simp
next
  case (Cons s ss)
  show ?case
    using Cons.IH[of 0 "Suc a"] Cons.IH[of 0 "Suc 0"] Cons.IH[of "c + 1" a] Cons.IH[of 0 a]
    by simp
qed

lemma debounce_spec_bounds:
  "0 \<le> c \<Longrightarrow> c < n \<Longrightarrow>
   0 \<le> fst (debounce_spec P n (c, a) ss) \<and> fst (debounce_spec P n (c, a) ss) < n"
  by (induction ss arbitrary: c a) auto

lemma process_audio_chunk_unscored:
  "predict cfg L d (pad_audio_chunk d c) = Inl e \<Longrightarrow>
   process_audio_chunk cfg L d w c = (Inl e, d, w)"
  by (simp add: process_audio_chunk_def)

lemma process_audio_chunk_step:
  assumes "1 \<le> snore_threshold_count d" "0 \<le> snore_count d"
    and "snore_count d < snore_threshold_count d"
    and "callback_returns d"
    and "predict cfg L d (pad_audio_chunk d c) = Inr s"
  shows "process_audio_chunk cfg L d w c =
     (Inr (s, s < snore_limit cfg d),
      d\<lparr>snore_count :=
          (if s < snore_limit cfg d
           then (if snore_count d + 1 = snore_threshold_count d then 0 else snore_count d + 1)
           else 0)\<rparr>,
      after_alerts d
        (if s < snore_limit cfg d \<and> snore_count d + 1 = snore_threshold_count d then 1 else 0) w)"
proof (cases "vibration_callback d")
  case None
  with assms show ?thesis
    by (simp add: process_audio_chunk_def Let_def after_alerts_None np_float32_less_limit)
next
  case (Some cb)
  obtain w' where "cb w = (None, w')"
    using callback_returnsD[OF assms(4) Some] by blast
  with assms Some show ?thesis
    by (simp add: process_audio_chunk_def Let_def after_alerts_def np_float32_less_limit)
qed

lemma process_audio_chunks_debounce:
  assumes "1 \<le> snore_threshold_count d" "0 \<le> snore_count d"
    and "snore_count d < snore_threshold_count d"
    and "callback_returns d"
  shows "process_audio_chunks cfg L d w chunks =
     (d\<lparr>snore_count :=
          fst (debounce_spec (\<lambda>s. s < snore_limit cfg d) (snore_threshold_count d) (snore_count d, 0)
                (scored (map (\<lambda>c. predict cfg L d (pad_audio_chunk d c)) chunks)))\<rparr>,
      after_alerts d
        (snd (debounce_spec (\<lambda>s. s < snore_limit cfg d) (snore_threshold_count d) (snore_count d, 0)
                (scored (map (\<lambda>c. predict cfg L d (pad_audio_chunk d c)) chunks)))) w)"
  using assms
proof (induction chunks arbitrary: d w)
  case Nil
  then show ?case by simp
next
  case (Cons c cs)
  show ?case
  proof (cases "predict cfg L d (pad_audio_chunk d c)")
    case (Inl e)
    then have "process_audio_chunks cfg L d w (c # cs) = process_audio_chunks cfg L d w cs"
      by (simp add: process_audio_chunk_unscored)
    with Cons.IH[OF Cons.prems, of w] Inl show ?thesis
      by simp
  next
    case (Inr s)
    define P where "P = (\<lambda>s. s < snore_limit cfg d)"
    define ss where "ss = scored (map (\<lambda>c. predict cfg L d (pad_audio_chunk d c)) cs)"
    define fire where "fire = (P s \<and> snore_count d + 1 = snore_threshold_count d)"
    define n' where "n' =
          (if P s
           then (if snore_count d + 1 = snore_threshold_count d then 0 else snore_count d + 1)
           else 0)"
    define d' where "d' = d\<lparr>snore_count := n'\<rparr>"
    define w' where "w' = after_alerts d (if fire then 1 else 0) w"
    have step: "process_audio_chunk cfg L d w c = (Inr (s, P s), d', w')"
      unfolding d'_def w'_def n'_def fire_def P_def
      by (rule process_audio_chunk_step[OF Cons.prems Inr])
    have inv: "1 \<le> snore_threshold_count d'" "0 \<le> snore_count d'"
      "snore_count d' < snore_threshold_count d'" "callback_returns d'"
      using Cons.prems by (auto simp: d'_def n'_def)
    have IH: "process_audio_chunks cfg L d' w' cs =
       (d\<lparr>snore_count := fst (debounce_spec P (snore_threshold_count d) (n', 0) ss)\<rparr>,
        after_alerts d (snd (debounce_spec P (snore_threshold_count d) (n', 0) ss)) w')"
      using Cons.IH[OF inv, of w'] by (simp add: d'_def P_def ss_def)
    have run: "process_audio_chunks cfg L d w (c # cs) = process_audio_chunks cfg L d' w' cs"
      by (simp add: step)
    have sc: "scored (map (\<lambda>c. predict cfg L d (pad_audio_chunk d c)) (c # cs)) = s # ss"
      by (simp add: Inr ss_def)
    have spec: "debounce_spec P (snore_threshold_count d) (snore_count d, 0) (s # ss) =
        (fst (debounce_spec P (snore_threshold_count d) (n', 0) ss),
         (if fire then 1 else 0) + snd (debounce_spec P (snore_threshold_count d) (n', 0) ss))"
      using debounce_spec_alerts[of P "snore_threshold_count d" 0 "Suc 0" ss]
      by (simp add: n'_def fire_def)
    have alerts: "after_alerts d k w' = after_alerts d ((if fire then 1 else 0) + k) w" for k
    proof (cases "vibration_callback d")
      case None
      then show ?thesis by (simp add: after_alerts_None w'_def)
    next
      case (Some cb)
      then show ?thesis by (simp add: after_alerts_Suc[OF Some] w'_def)
    qed
    show ?thesis
      unfolding run sc IH P_def[symmetric] spec by (simp add: alerts)
  qed
qed

text \<open>
  Claim C1, as the code has it. Take a detector with \<open>snore_threshold_count \<ge> 1\<close> whose
  counter lies in \<open>[0, snore_threshold_count)\<close> (as it does after \<open>__init__\<close>) and whose
  callback returns whenever it is called. Calling \<open>process_audio_chunk\<close> on any windows in
  turn leaves exactly the counter of the debounce rule run on the scores of the windows
  that were scored, calls the callback exactly once for every alert of the rule, and
  changes no other field; the counter stays below \<open>snore_threshold_count\<close>. A window
  is positive when its score is below the floating-point value of \<open>1 - threshold\<close>; a
  window whose scoring raises changes nothing. The rule emits one alert each time the
  count of consecutive positive windows reaches \<open>snore_threshold_count\<close>, resets the count
  to 0 right after, and resets it on every negative window.
\<close>

theorem debounce_exactly_once:
  assumes "1 \<le> snore_threshold_count d" "0 \<le> snore_count d"
    and "snore_count d < snore_threshold_count d"
    and "callback_returns d"
  shows "process_audio_chunks cfg L d w chunks =
     (d\<lparr>snore_count :=
          fst (debounce_spec (\<lambda>s. s < snore_limit cfg d) (snore_threshold_count d) (snore_count d, 0)
                (scored (map (\<lambda>c. predict cfg L d (pad_audio_chunk d c)) chunks)))\<rparr>,
      after_alerts d
        (snd (debounce_spec (\<lambda>s. s < snore_limit cfg d) (snore_threshold_count d) (snore_count d, 0)
                (scored (map (\<lambda>c. predict cfg L d (pad_audio_chunk d c)) chunks)))) w)
    \<and> 0 \<le> snore_count (fst (process_audio_chunks cfg L d w chunks))
    \<and> snore_count (fst (process_audio_chunks cfg L d w chunks)) < snore_threshold_count d"
  using process_audio_chunks_debounce[OF assms, of cfg L w chunks]
    debounce_spec_bounds[OF assms(2,3), of "\<lambda>s. s < snore_limit cfg d" 0
      "scored (map (\<lambda>c. predict cfg L d (pad_audio_chunk d c)) chunks)"]
  by simp

text \<open>
  With \<open>threshold = 0.5\<close> and \<open>snore_threshold_count = 3\<close>, on float32 scores: the scores
  \<open>[0.1, 0.1, 0.1]\<close> give one alert, after the third window, and leave the counter at 0;
  in \<open>[0.1, 0.1, 0.9, 0.1, 0.1, 0.1]\<close> the third window resets the counter and the one
  alert comes after the sixth.
\<close>

theorem debounce_exactly_once_witness:
  "1 \<le> snore_threshold_count detector0 \<and> 0 \<le> snore_count detector0
   \<and> snore_count detector0 < snore_threshold_count detector0
   \<and> callback_returns detector0
   \<and> threshold detector0 = 1 / 2 \<and> snore_threshold_count detector0 = 3
   \<and> process_audio_chunks cfg0 librosa0 detector0 [] [[13421773 / 2 ^ 27], [13421773 / 2 ^ 27]]
       = (detector0\<lparr>snore_count := 2\<rparr>, [])
   \<and> process_audio_chunks cfg0 librosa0 detector0 [] [[13421773 / 2 ^ 27], [13421773 / 2 ^ 27], [13421773 / 2 ^ 27]]
       = (detector0\<lparr>snore_count := 0\<rparr>, [Print Msg_vibration_alert])
   \<and> process_audio_chunks cfg0 librosa0 detector0 [] [[13421773 / 2 ^ 27], [13421773 / 2 ^ 27], [15099494 / 2 ^ 24]]
       = (detector0\<lparr>snore_count := 0\<rparr>, [])
   \<and> process_audio_chunks cfg0 librosa0 detector0 [] [[13421773 / 2 ^ 27], [13421773 / 2 ^ 27], [15099494 / 2 ^ 24], [13421773 / 2 ^ 27], [13421773 / 2 ^ 27]]
       = (detector0\<lparr>snore_count := 2\<rparr>, [])
   \<and> process_audio_chunks cfg0 librosa0 detector0 [] [[13421773 / 2 ^ 27], [13421773 / 2 ^ 27], [15099494 / 2 ^ 24], [13421773 / 2 ^ 27], [13421773 / 2 ^ 27], [13421773 / 2 ^ 27]]
       = (detector0\<lparr>snore_count := 0\<rparr>, [Print Msg_vibration_alert])"
proof -
  have inv: "1 \<le> snore_threshold_count detector0" "0 \<le> snore_count detector0"
    "snore_count detector0 < snore_threshold_count detector0"
    by (simp_all add: detector0_def)
  have vals: "threshold detector0 = 1 / 2" "snore_threshold_count detector0 = 3"
    "snore_count detector0 = 0"
    by (simp_all add: detector0_def)
  have alert: "after_alerts detector0 (Suc 0) [] = [Print Msg_vibration_alert]"
    by (simp add: after_alerts_def detector0_def vibration_alert_def)
  note run = debounce_exactly_once[OF inv callback_returns_detector0,
      where cfg = cfg0 and L = librosa0 and w = "[]", THEN conjunct1]
  have r2: "process_audio_chunks cfg0 librosa0 detector0 [] [[13421773 / 2 ^ 27], [13421773 / 2 ^ 27]]
       = (detector0\<lparr>snore_count := 2\<rparr>, [])"
    using run[of "[[13421773 / 2 ^ 27], [13421773 / 2 ^ 27]]"]
    by (simp add: vals predict_detector0)
  have r3: "process_audio_chunks cfg0 librosa0 detector0 [] [[13421773 / 2 ^ 27], [13421773 / 2 ^ 27], [13421773 / 2 ^ 27]]
       = (detector0\<lparr>snore_count := 0\<rparr>, [Print Msg_vibration_alert])"
    using run[of "[[13421773 / 2 ^ 27], [13421773 / 2 ^ 27], [13421773 / 2 ^ 27]]"]
    by (simp add: vals alert predict_detector0)
  have n3: "process_audio_chunks cfg0 librosa0 detector0 [] [[13421773 / 2 ^ 27], [13421773 / 2 ^ 27], [15099494 / 2 ^ 24]]
       = (detector0\<lparr>snore_count := 0\<rparr>, [])"
    using run[of "[[13421773 / 2 ^ 27], [13421773 / 2 ^ 27], [15099494 / 2 ^ 24]]"]
    by (simp add: vals predict_detector0)
  have n5: "process_audio_chunks cfg0 librosa0 detector0 [] [[13421773 / 2 ^ 27], [13421773 / 2 ^ 27], [15099494 / 2 ^ 24], [13421773 / 2 ^ 27], [13421773 / 2 ^ 27]]
       = (detector0\<lparr>snore_count := 2\<rparr>, [])"
    using run[of "[[13421773 / 2 ^ 27], [13421773 / 2 ^ 27], [15099494 / 2 ^ 24], [13421773 / 2 ^ 27], [13421773 / 2 ^ 27]]"]
    by (simp add: vals predict_detector0)
  have n6: "process_audio_chunks cfg0 librosa0 detector0 [] [[13421773 / 2 ^ 27], [13421773 / 2 ^ 27], [15099494 / 2 ^ 24], [13421773 / 2 ^ 27], [13421773 / 2 ^ 27], [13421773 / 2 ^ 27]]
       = (detector0\<lparr>snore_count := 0\<rparr>, [Print Msg_vibration_alert])"
    using run[of "[[13421773 / 2 ^ 27], [13421773 / 2 ^ 27], [15099494 / 2 ^ 24], [13421773 / 2 ^ 27], [13421773 / 2 ^ 27], [13421773 / 2 ^ 27]]"]
    by (simp add: vals alert predict_detector0)
  show ?thesis
    using inv callback_returns_detector0 vals(1,2) r2 r3 n3 n5 n6
    by (intro conjI)
qed

lemma predict_detector3:
  "predict cfg0 librosa0 (detector3\<lparr>snore_count := n\<rparr>)
     (pad_audio_chunk (detector3\<lparr>snore_count := n\<rparr>) [s]) = Inr s"
  by (simp add: detector3_def predict_detector0)

text \<open>
  Claim C1 as stated, for every run, fails when the callback raises: the exception leaves
  \<open>process_audio_chunk\<close> before the counter is reset. On the scores \<open>[0.1, 0.1, 0.1]\<close> the
  callback is called after the third window and the counter is left at 3, not 0; a fourth
  positive window calls the callback again.
\<close>

theorem debounce_counterexample:
  "1 \<le> snore_threshold_count detector3 \<and> snore_count detector3 = 0
   \<and> snore_threshold_count detector3 = 3 \<and> threshold detector3 = 1 / 2
   \<and> process_audio_chunks cfg0 librosa0 detector3 [] [[13421773 / 2 ^ 27], [13421773 / 2 ^ 27], [13421773 / 2 ^ 27]]
       = (detector3\<lparr>snore_count := 3\<rparr>, [Print Msg_vibration_alert])
   \<and> snore_count (fst (process_audio_chunks cfg0 librosa0 detector3 [] [[13421773 / 2 ^ 27], [13421773 / 2 ^ 27], [13421773 / 2 ^ 27]])) \<noteq> 0
   \<and> process_audio_chunks cfg0 librosa0 detector3 [] [[13421773 / 2 ^ 27], [13421773 / 2 ^ 27], [13421773 / 2 ^ 27], [13421773 / 2 ^ 27]]
       = (detector3\<lparr>snore_count := 4\<rparr>, [Print Msg_vibration_alert, Print Msg_vibration_alert])"
proof -
  have vals: "snore_count detector3 = 0" "snore_threshold_count detector3 = 3"
    "threshold detector3 = 1 / 2" "vibration_callback detector3 = Some alert_raises"
    by (simp_all add: detector3_def detector0_def)
  have step: "process_audio_chunk cfg0 librosa0 (detector3\<lparr>snore_count := n\<rparr>) w [s] =
      (if 3 \<le> n + 1
       then (Inl ValueError, detector3\<lparr>snore_count := n + 1\<rparr>, w @ [Print Msg_vibration_alert])
       else (Inr (s, True), detector3\<lparr>snore_count := n + 1\<rparr>, w))" if "s < 1 / 2" for n w s
    using predict_detector3[of n s] that
    by (simp add: process_audio_chunk_def Let_def np_float32_less_def py_float_sub_def vals
        alert_raises_def cfg0_def)
  have start: "detector3 = detector3\<lparr>snore_count := 0\<rparr>"
    by (simp add: detector3_def detector0_def)
  have r3: "process_audio_chunks cfg0 librosa0 detector3 [] [[13421773 / 2 ^ 27], [13421773 / 2 ^ 27], [13421773 / 2 ^ 27]]
       = (detector3\<lparr>snore_count := 3\<rparr>, [Print Msg_vibration_alert])"
    by (subst start) (simp add: step)
  have r4: "process_audio_chunks cfg0 librosa0 detector3 [] [[13421773 / 2 ^ 27], [13421773 / 2 ^ 27], [13421773 / 2 ^ 27], [13421773 / 2 ^ 27]]
       = (detector3\<lparr>snore_count := 4\<rparr>, [Print Msg_vibration_alert, Print Msg_vibration_alert])"
    by (subst start) (simp add: step)
  show ?thesis
    using vals(1,2,3) r3 r4 by simp
qed

end
